theory Spec2Isabelle
  imports Main
begin

section \<open>Python strings\<close>

text \<open>
  Strings are lists of characters. The model covers ASCII text: \<open>str.lower\<close> and
  \<open>str.upper\<close> change the 26 letters and nothing else.
\<close>

definition lower_char :: "char \<Rightarrow> char" where
  "lower_char c =
     (case map_of (zip ''ABCDEFGHIJKLMNOPQRSTUVWXYZ'' ''abcdefghijklmnopqrstuvwxyz'') c of
        None \<Rightarrow> c
      | Some l \<Rightarrow> l)"

definition upper_char :: "char \<Rightarrow> char" where
  "upper_char c =
     (case map_of (zip ''abcdefghijklmnopqrstuvwxyz'' ''ABCDEFGHIJKLMNOPQRSTUVWXYZ'') c of
        None \<Rightarrow> c
      | Some u \<Rightarrow> u)"

definition lower :: "string \<Rightarrow> string" where
  "lower s = map lower_char s"

definition upper :: "string \<Rightarrow> string" where
  "upper s = map upper_char s"

text \<open>\<open>s.startswith(p)\<close>, and the substring test \<open>sub in s\<close>.\<close>

fun startswith :: "string \<Rightarrow> string \<Rightarrow> bool" where
  "startswith s [] = True"
| "startswith [] (p # ps) = False"
| "startswith (c # cs) (p # ps) = (c = p \<and> startswith cs ps)"

fun str_in :: "string \<Rightarrow> string \<Rightarrow> bool" where
  "str_in sub [] = (sub = [])"
| "str_in sub (c # cs) = (startswith (c # cs) sub \<or> str_in sub cs)"

section \<open>Exceptions and values\<close>

text \<open>
  An exception is its class and its description \<open>str(e)\<close>. Three classes are told
  apart by the handlers of the source: \<open>ValueError\<close> (caught by
  \<open>except ValueError\<close>), \<open>IndexError\<close> and every other subclass of
  \<open>Exception\<close> (caught by \<open>except Exception\<close> only), and Streamlit's
  \<open>RerunException\<close>, which \<open>st.rerun()\<close> raises to restart the script and which
  is no subclass of \<open>Exception\<close>.
\<close>

datatype exn_class = ValueError | IndexError | Exception | RerunException

datatype exn = Exn (cls: exn_class) (str: string)

definition is_Exception :: "exn \<Rightarrow> bool" where
  "is_Exception e = (cls e \<noteq> RerunException)"

definition is_ValueError :: "exn \<Rightarrow> bool" where
  "is_ValueError e = (cls e = ValueError)"

text \<open>
  The values kept in the session and decoded from JSON. \<open>ApiClient t\<close> is
  \<open>openapi_client.ApiClient(configuration)\<close> for a configuration whose access token
  is \<open>t\<close>.
\<close>

datatype pyval = PNone | PBool bool | PInt int | PStr string | ApiClient pyval

fun truthy :: "pyval \<Rightarrow> bool" where
  "truthy PNone = False"
| "truthy (PBool b) = b"
| "truthy (PInt i) = (i \<noteq> 0)"
| "truthy (PStr s) = (s \<noteq> [])"
| "truthy (ApiClient t) = True"

section \<open>Engine data\<close>

record position =
  x :: int
  y :: int

record move =
  var_from :: position
  to :: position

record party =
  entity :: "(string \<times> string list) list"
  access :: "(string \<times> string list) list"

record chess_parties =
  white :: party
  black :: party

datatype chess = Chess (chess_id: string) (chess_state: string) (parties: chess_parties)

datatype piece = Piece (piece_type: string) (color: string) (piece_position: position)

text \<open>
  The requests of \<open>openapi_client.DefaultApi\<close>. A move request carries the game id and
  the move of its command object; a creation request carries the parties of its
  \<open>ChessCreate\<close>.
\<close>

datatype api_request =
    CreateChess chess_parties
  | GetChessList
  | ChessGetBoard string
  | ChessGetCurrentTurn string
  | ChessMakeWhiteMove string move
  | ChessMakeBlackMove string move
  | GetChessById string

section \<open>Observable effects, the application state and its environment\<close>

text \<open>
  Every effect that leaves the program is appended to a trace: the messages shown with
  \<open>st.error\<close> and \<open>st.info\<close>, the form posted to the token endpoint, and every call
  of a \<open>DefaultApi\<close> method with the client it was made through.
\<close>

datatype event =
    StError string
  | StInfo string
  | RequestsPost string "(string \<times> pyval) list"
  | ApiCall pyval api_request

fun network :: "event \<Rightarrow> bool" where
  "network (StError m) = False"
| "network (StInfo m) = False"
| "network (RequestsPost url data) = True"
| "network (ApiCall client req) = True"

text \<open>
  \<open>session_state\<close> is \<open>st.session_state\<close>; \<open>api_client\<close> and \<open>access_token\<close> are
  \<open>self.api_client\<close> and \<open>self.configuration.access_token\<close> of the \<open>ChessApp\<close>.
\<close>

record state =
  session_state :: "string \<rightharpoonup> pyval"
  api_client :: pyval
  access_token :: pyval
  events :: "event list"

text \<open>
  The environment answers every request as a function of the trace so far, so two
  calls of one endpoint may be answered differently. \<open>requests_post\<close> stands for
  \<open>requests.post\<close>, \<open>raise_for_status\<close> and \<open>response.json()\<close> together: an exception
  or the decoded object. The other fields are the methods of \<open>DefaultApi\<close>, given the
  client object. \<open>dict_repr\<close> is the text Python prints for a dictionary.
\<close>

record env =
  requests_post :: "event list \<Rightarrow> string \<Rightarrow> (string \<times> pyval) list \<Rightarrow> exn + (string \<times> pyval) list"
  dict_repr :: "(string \<times> pyval) list \<Rightarrow> string"
  create_chess :: "event list \<Rightarrow> pyval \<Rightarrow> chess_parties \<Rightarrow> exn + chess"
  get_chess_list :: "event list \<Rightarrow> pyval \<Rightarrow> exn + chess list"
  chess_get_board :: "event list \<Rightarrow> pyval \<Rightarrow> string \<Rightarrow> exn + piece list"
  chess_get_current_turn :: "event list \<Rightarrow> pyval \<Rightarrow> string \<Rightarrow> exn + string"
  chess_make_white_move :: "event list \<Rightarrow> pyval \<Rightarrow> string \<Rightarrow> move \<Rightarrow> exn + unit"
  chess_make_black_move :: "event list \<Rightarrow> pyval \<Rightarrow> string \<Rightarrow> move \<Rightarrow> exn + unit"
  get_chess_by_id :: "event list \<Rightarrow> pyval \<Rightarrow> string \<Rightarrow> exn + chess"

definition session_get :: "state \<Rightarrow> string \<Rightarrow> pyval" where
  "session_get s k = (case session_state s k of None \<Rightarrow> PNone | Some v \<Rightarrow> v)"

definition emit :: "event \<Rightarrow> state \<Rightarrow> state" where
  "emit ev s = s\<lparr>events := events s @ [ev]\<rparr>"

definition api_call :: "(event list \<Rightarrow> pyval \<Rightarrow> exn + 'r) \<Rightarrow> api_request \<Rightarrow> pyval \<Rightarrow> state \<Rightarrow> (exn + 'r) \<times> state" where
  "api_call method req client s = (method (events s) client, emit (ApiCall client req) s)"

section \<open>AuthConfig and the token exchange\<close>

definition auth_url :: string where
  "auth_url = ''https://keycloak-platformdemo-chess.noumena.cloud/realms/noumena''"

definition client_id :: string where
  "client_id = ''noumena''"

definition client_secret :: string where
  "client_secret = ''test''"

text \<open>
  \<open>ChessApp.refresh_token\<close>: every \<open>Exception\<close> of the exchange, and a decoded
  answer without one of the two token fields, becomes a \<open>ValueError\<close>.
\<close>

definition token_url :: string where
  "token_url = auth_url @ ''/protocol/openid-connect/token''"

definition refresh_data :: "pyval \<Rightarrow> (string \<times> pyval) list" where
  "refresh_data rt =
     [(''grant_type'', PStr ''refresh_token''),
      (''client_id'', PStr client_id),
      (''client_secret'', PStr client_secret),
      (''refresh_token'', rt)]"

definition refresh_token :: "env \<Rightarrow> pyval \<Rightarrow> state \<Rightarrow> (exn + (string \<times> pyval) list) \<times> state" where
  "refresh_token ev rt s =
     (let url = token_url;
          data = refresh_data rt;
          s1 = emit (RequestsPost url data) s
      in case requests_post ev (events s) url data of
           Inl e \<Rightarrow>
             if is_Exception e
             then (Inl (Exn ValueError (''Failed to refresh token: '' @ str e)), s1)
             else (Inl e, s1)
         | Inr token_data \<Rightarrow>
             if map_of token_data ''access_token'' = None \<or> map_of token_data ''refresh_token'' = None
             then (Inl (Exn ValueError (''Failed to refresh token: '' @
                          ''Invalid token response: '' @ dict_repr ev token_data)), s1)
             else (Inr token_data, s1))"

text \<open>
  \<open>ChessApp.ensure_valid_token\<close>. The assignments run in the order of the source, and
  a missing key would end them where it is read.
\<close>

definition session_expired :: exn where
  "session_expired = Exn ValueError ''Session expired. Please login again.''"

definition ensure_valid_token :: "env \<Rightarrow> state \<Rightarrow> (exn + unit) \<times> state" where
  "ensure_valid_token ev s =
     (if \<not> truthy (session_get s ''refresh_token'')
      then (Inl (Exn ValueError ''No refresh token available. Please login again.''), s)
      else
        case refresh_token ev (session_get s ''refresh_token'') s of
          (Inl e, s1) \<Rightarrow> if is_Exception e then (Inl session_expired, s1) else (Inl e, s1)
        | (Inr token_data, s1) \<Rightarrow>
            (case map_of token_data ''access_token'' of
               None \<Rightarrow> (Inl session_expired, s1)
             | Some at \<Rightarrow>
                 let s2 = s1\<lparr>access_token := at\<rparr>;
                     s3 = s2\<lparr>api_client := ApiClient (access_token s2)\<rparr>;
                     s4 = s3\<lparr>session_state := (session_state s3)(''api_client'' \<mapsto> api_client s3)\<rparr>;
                     s5 = s4\<lparr>session_state := (session_state s4)(''auth_token'' \<mapsto> at)\<rparr>
                 in (case map_of token_data ''refresh_token'' of
                       None \<Rightarrow> (Inl session_expired, s5)
                     | Some rt' \<Rightarrow>
                         (Inr (), s5\<lparr>session_state := (session_state s5)(''refresh_token'' \<mapsto> rt')\<rparr>))))"

section \<open>The decorator \<open>with_token_refresh\<close>\<close>

definition token_signal :: "exn \<Rightarrow> bool" where
  "token_signal e = (str_in ''token'' (lower (str e)) \<or> str_in ''unauthorized'' (lower (str e)))"

text \<open>
  The handler of \<open>except ValueError as ve\<close>: the message is shown, the session is
  cleared, and \<open>st.rerun()\<close> leaves the script.
\<close>

definition relogin :: "exn \<Rightarrow> state \<Rightarrow> (exn + 'a) \<times> state" where
  "relogin ve s =
     (Inl (Exn RerunException []), (emit (StError (str ve)) s)\<lparr>session_state := Map.empty\<rparr>)"

text \<open>
  The wrapper that the decorator returns, for a wrapped method \<open>func\<close> with
  its arguments applied. The last component of the result counts the evaluations of
  \<open>func(self, *args, **kwargs)\<close>: the one in the outer \<open>try\<close> and the one after
  \<open>ensure_valid_token\<close>. The inner \<open>try\<close> holds both \<open>ensure_valid_token\<close> and the
  second call, so its handler also receives a \<open>ValueError\<close> of the second call.
\<close>

definition with_token_refresh_counted ::
  "(state \<Rightarrow> (exn + 'a) \<times> state) \<Rightarrow> env \<Rightarrow> state \<Rightarrow> ((exn + 'a) \<times> state) \<times> nat" where
  "with_token_refresh_counted func ev s =
     (case func s of
        (Inr v, s1) \<Rightarrow> ((Inr v, s1), 1)
      | (Inl e, s1) \<Rightarrow>
          if \<not> is_Exception e then ((Inl e, s1), 1)
          else if token_signal e then
            (case ensure_valid_token ev s1 of
               (Inl ve, s2) \<Rightarrow>
                 if is_ValueError ve then (relogin ve s2, 1) else ((Inl ve, s2), 1)
             | (Inr u, s2) \<Rightarrow>
                 (case func s2 of
                    (Inr v, s3) \<Rightarrow> ((Inr v, s3), 2)
                  | (Inl e2, s3) \<Rightarrow>
                      if is_ValueError e2 then (relogin e2 s3, 2) else ((Inl e2, s3), 2)))
          else ((Inl e, s1), 1))"

definition with_token_refresh ::
  "(state \<Rightarrow> (exn + 'a) \<times> state) \<Rightarrow> env \<Rightarrow> state \<Rightarrow> (exn + 'a) \<times> state" where
  "with_token_refresh func ev s = fst (with_token_refresh_counted func ev s)"

text \<open>An outcome that is a raised \<open>ValueError\<close>.\<close>

definition value_error_result :: "(exn + 'a) \<Rightarrow> bool" where
  "value_error_result r = (case r of Inl e \<Rightarrow> is_ValueError e | Inr v \<Rightarrow> False)"

section \<open>The wrapped methods of \<open>ChessApp\<close>\<close>

text \<open>
  Each method is the decorator applied to the body written in the source; the body
  has the suffix \<open>_body\<close>. Debug output written with \<open>print\<close> is left out.
\<close>

definition please_login_first :: exn where
  "please_login_first = Exn ValueError ''Please login first''"

definition create_party :: "(string \<times> string list) list \<Rightarrow> party" where
  "create_party claims = \<lparr>entity = claims, access = []\<rparr>"

definition username_to_party :: "string \<Rightarrow> party" where
  "username_to_party username =
     create_party [(''preferred_username'', [username]), (''iss'', [auth_url])]"

definition create_chess_instance_body ::
  "env \<Rightarrow> string \<Rightarrow> string \<Rightarrow> string \<Rightarrow> state \<Rightarrow> (exn + chess) \<times> state" where
  "create_chess_instance_body ev player_username opponent_username player_color s =
     (if \<not> truthy (session_get s ''api_client'') then (Inl please_login_first, s)
      else
        let client = session_get s ''api_client'';
            is_white = (upper player_color = ''WHITE'');
            white_party = username_to_party (if is_white then player_username else opponent_username);
            black_party = username_to_party (if is_white then opponent_username else player_username);
            ps = \<lparr>white = white_party, black = black_party\<rparr>
        in api_call (\<lambda>tr c. create_chess ev tr c ps) (CreateChess ps) client s)"

definition create_chess_instance ::
  "env \<Rightarrow> string \<Rightarrow> string \<Rightarrow> string \<Rightarrow> state \<Rightarrow> (exn + chess) \<times> state" where
  "create_chess_instance ev player_username opponent_username player_color =
     with_token_refresh (create_chess_instance_body ev player_username opponent_username player_color) ev"

definition get_chess_games_body :: "env \<Rightarrow> state \<Rightarrow> (exn + chess list) \<times> state" where
  "get_chess_games_body ev s =
     (if \<not> truthy (session_get s ''api_client'') then (Inl please_login_first, s)
      else api_call (get_chess_list ev) GetChessList (session_get s ''api_client'') s)"

definition get_chess_games :: "env \<Rightarrow> state \<Rightarrow> (exn + chess list) \<times> state" where
  "get_chess_games ev = with_token_refresh (get_chess_games_body ev) ev"

definition get_board_body :: "env \<Rightarrow> string \<Rightarrow> state \<Rightarrow> (exn + piece list) \<times> state" where
  "get_board_body ev game_id s =
     (if \<not> truthy (session_get s ''api_client'') then (Inl please_login_first, s)
      else api_call (\<lambda>tr c. chess_get_board ev tr c game_id) (ChessGetBoard game_id)
             (session_get s ''api_client'') s)"

definition get_board :: "env \<Rightarrow> string \<Rightarrow> state \<Rightarrow> (exn + piece list) \<times> state" where
  "get_board ev game_id = with_token_refresh (get_board_body ev game_id) ev"

definition get_current_turn_body :: "env \<Rightarrow> string \<Rightarrow> state \<Rightarrow> (exn + string) \<times> state" where
  "get_current_turn_body ev game_id s =
     (if \<not> truthy (session_get s ''api_client'') then (Inl please_login_first, s)
      else api_call (\<lambda>tr c. chess_get_current_turn ev tr c game_id) (ChessGetCurrentTurn game_id)
             (session_get s ''api_client'') s)"

definition get_current_turn :: "env \<Rightarrow> string \<Rightarrow> state \<Rightarrow> (exn + string) \<times> state" where
  "get_current_turn ev game_id = with_token_refresh (get_current_turn_body ev game_id) ev"

definition get_game_body :: "env \<Rightarrow> string \<Rightarrow> state \<Rightarrow> (exn + chess) \<times> state" where
  "get_game_body ev game_id s =
     (if \<not> truthy (session_get s ''api_client'') then (Inl please_login_first, s)
      else api_call (\<lambda>tr c. get_chess_by_id ev tr c game_id) (GetChessById game_id)
             (session_get s ''api_client'') s)"

definition get_game :: "env \<Rightarrow> string \<Rightarrow> state \<Rightarrow> (exn + chess) \<times> state" where
  "get_game ev game_id = with_token_refresh (get_game_body ev game_id) ev"

section \<open>\<open>make_move\<close>\<close>

text \<open>
  \<open>int(c)\<close> for a string of one character: the ten digits have a value, every other
  character raises \<open>ValueError\<close>.
\<close>

definition digit_value :: "char \<Rightarrow> int option" where
  "digit_value c = map_of (zip ''0123456789'' [0, 1, 2, 3, 4, 5, 6, 7, 8, 9]) c"

definition index_error :: exn where
  "index_error = Exn IndexError ''string index out of range''"

text \<open>
  The conversion of one square, the two lines
  \<open>ord(pos[0].lower()) - ord('a')\<close> and \<open>int(pos[1]) - 1\<close>. Only the first two
  characters are read; nothing checks the length or the range. The description of the
  \<open>ValueError\<close> quotes the character as Python does for a printable one.
\<close>

definition notation_to_coord :: "string \<Rightarrow> exn + position" where
  "notation_to_coord pos =
     (case pos of
        [] \<Rightarrow> Inl index_error
      | c0 # rest \<Rightarrow>
          let px = of_char (lower_char c0) - of_char (CHR ''a'') in
          (case rest of
             [] \<Rightarrow> Inl index_error
           | c1 # others \<Rightarrow>
               (case digit_value c1 of
                  None \<Rightarrow> Inl (Exn ValueError (''invalid literal for int() with base 10: '' @
                                    [CHR 0x27, c1, CHR 0x27]))
                | Some d \<Rightarrow> Inr \<lparr>x = px, y = d - 1\<rparr>)))"

text \<open>
  Modelled from the spec: \<open>PieceColor\<close> is declared in the generated client, which is
  not part of the source file; its member \<open>WHITE\<close> is taken to be the string
  \<open>"WHITE"\<close>, as the spec's example \<open>submit_move(id,"e2","e4","WHITE")\<close> has it.
  \<open>Position\<close>, \<open>Move\<close> and the two command classes of the generated client are taken
  to be plain data holders.
\<close>

definition PieceColor_WHITE :: string where
  "PieceColor_WHITE = ''WHITE''"

definition make_move_try ::
  "env \<Rightarrow> string \<Rightarrow> string \<Rightarrow> string \<Rightarrow> string \<Rightarrow> state \<Rightarrow> (exn + unit) \<times> state" where
  "make_move_try ev game_id from_pos to_pos current_turn s =
     (if \<not> truthy (session_get s ''api_client'') then (Inl please_login_first, s)
      else
        case notation_to_coord from_pos of
          Inl e \<Rightarrow> (Inl e, s)
        | Inr from_position \<Rightarrow>
            (case notation_to_coord to_pos of
               Inl e \<Rightarrow> (Inl e, s)
             | Inr to_position \<Rightarrow>
                 let mv = \<lparr>var_from = from_position, to = to_position\<rparr>;
                     client = session_get s ''api_client''
                 in if current_turn = PieceColor_WHITE
                    then api_call (\<lambda>tr c. chess_make_white_move ev tr c game_id mv)
                           (ChessMakeWhiteMove game_id mv) client s
                    else api_call (\<lambda>tr c. chess_make_black_move ev tr c game_id mv)
                           (ChessMakeBlackMove game_id mv) client s))"

text \<open>The three messages of the handler, in the order the source tests for them.\<close>

definition move_error_message :: "string \<Rightarrow> string" where
  "move_error_message error_msg =
     (if str_in ''Invalid move'' error_msg then ''Invalid move! Please check the rules of chess.''
      else if str_in ''Not your turn'' error_msg then ''Not your turn!''
      else ''Move failed. Please try again.'')"

definition move_failed :: exn where
  "move_failed = Exn ValueError ''Move failed''"

definition make_move_body ::
  "env \<Rightarrow> string \<Rightarrow> string \<Rightarrow> string \<Rightarrow> string \<Rightarrow> state \<Rightarrow> (exn + unit) \<times> state" where
  "make_move_body ev game_id from_pos to_pos current_turn s =
     (case make_move_try ev game_id from_pos to_pos current_turn s of
        (Inr u, s1) \<Rightarrow> (Inr (), s1)
      | (Inl e, s1) \<Rightarrow>
          if is_Exception e
          then (Inl move_failed, emit (StError (move_error_message (str e))) s1)
          else (Inl e, s1))"

definition make_move_counted ::
  "env \<Rightarrow> string \<Rightarrow> string \<Rightarrow> string \<Rightarrow> string \<Rightarrow> state \<Rightarrow> ((exn + unit) \<times> state) \<times> nat" where
  "make_move_counted ev game_id from_pos to_pos current_turn =
     with_token_refresh_counted (make_move_body ev game_id from_pos to_pos current_turn) ev"

definition make_move ::
  "env \<Rightarrow> string \<Rightarrow> string \<Rightarrow> string \<Rightarrow> string \<Rightarrow> state \<Rightarrow> (exn + unit) \<times> state" where
  "make_move ev game_id from_pos to_pos current_turn =
     with_token_refresh (make_move_body ev game_id from_pos to_pos current_turn) ev"

section \<open>The move form of \<open>main\<close>\<close>

text \<open>\<open>s[i]\<close> for an index that is not negative: a string of one character.\<close>

definition char_at :: "string \<Rightarrow> nat \<Rightarrow> exn + string" where
  "char_at s i = (if i < length s then Inr [s ! i] else Inl index_error)"

text \<open>\<open>f[i] in alphabet and t[i] in alphabet\<close>, the second test only after the first.\<close>

definition in_both :: "string \<Rightarrow> string \<Rightarrow> nat \<Rightarrow> string \<Rightarrow> exn + bool" where
  "in_both f t i alphabet =
     (case char_at f i of
        Inl e \<Rightarrow> Inl e
      | Inr c \<Rightarrow>
          if \<not> str_in c alphabet then Inr False
          else (case char_at t i of Inl e \<Rightarrow> Inl e | Inr d \<Rightarrow> Inr (str_in d alphabet)))"

text \<open>The block under the comment \<open>Basic validation\<close>: the value of \<open>valid_input\<close>.\<close>

definition validate_squares :: "string \<Rightarrow> string \<Rightarrow> bool \<Rightarrow> state \<Rightarrow> (exn + bool) \<times> state" where
  "validate_squares from_square to_square is_white s =
     (if from_square \<noteq> [] \<and> to_square \<noteq> [] then
        let v1 = (length from_square = 2 \<and> length to_square = 2);
            s1 = (if v1 then s
                  else emit (StError (''Squares must be in format like '' @ [CHR 0x27] @ ''e2'' @ [CHR 0x27])) s)
        in case in_both from_square to_square 0 ''abcdefgh'' of
             Inl e \<Rightarrow> (Inl e, s1)
           | Inr file_ok \<Rightarrow>
               let v2 = (v1 \<and> file_ok);
                   s2 = (if file_ok then s1
                         else emit (StError (''File must be between '' @ [CHR 0x27] @ ''a'' @ [CHR 0x27] @
                                       '' and '' @ [CHR 0x27] @ ''h'' @ [CHR 0x27])) s1)
               in (case in_both from_square to_square 1 ''12345678'' of
                     Inl e \<Rightarrow> (Inl e, s2)
                   | Inr rank_ok \<Rightarrow>
                       let v3 = (v2 \<and> rank_ok);
                           s3 = (if rank_ok then s2
                                 else emit (StError ''Rank must be between 1 and 8'') s2)
                       in (Inr v3,
                           emit (StInfo (if is_white then ''White pieces start on ranks 1 and 2''
                                         else ''Black pieces start on ranks 7 and 8'')) s3))
      else (Inr True, s))"

text \<open>
  The form: validation, then the call of \<open>make_move\<close> on the lower-cased squares when
  the button was pressed and the input is valid. A successful move ends in
  \<open>st.rerun()\<close>; a \<open>ValueError\<close> of \<open>make_move\<close> is dropped.
\<close>

definition move_form ::
  "env \<Rightarrow> string \<Rightarrow> string \<Rightarrow> string \<Rightarrow> bool \<Rightarrow> bool \<Rightarrow> string \<Rightarrow> state \<Rightarrow> (exn + unit) \<times> state" where
  "move_form ev active_game_id from_square to_square is_white submit current_turn s =
     (case validate_squares from_square to_square is_white s of
        (Inl e, s1) \<Rightarrow> (Inl e, s1)
      | (Inr valid_input, s1) \<Rightarrow>
          if submit \<and> valid_input \<and> from_square \<noteq> [] \<and> to_square \<noteq> [] then
            (case make_move ev active_game_id (lower from_square) (lower to_square) current_turn s1 of
               (Inr u, s2) \<Rightarrow> (Inl (Exn RerunException []), s2)
             | (Inl e, s2) \<Rightarrow> if is_ValueError e then (Inr (), s2) else (Inl e, s2))
          else (Inr (), s1))"

section \<open>Squares as the specification describes them\<close>

text \<open>
  The squares the specification calls valid: exactly two characters, a file in
  \<open>a\<close> to \<open>h\<close> and a rank in \<open>1\<close> to \<open>8\<close>; and the positions it calls valid.
\<close>

definition well_formed_square :: "string \<Rightarrow> bool" where
  "well_formed_square sq =
     (length sq = 2 \<and> sq ! 0 \<in> set ''abcdefgh'' \<and> sq ! 1 \<in> set ''12345678'')"

definition valid_position :: "position \<Rightarrow> bool" where
  "valid_position p = (0 \<le> x p \<and> x p \<le> 7 \<and> 0 \<le> y p \<and> y p \<le> 7)"

text \<open>
  Modelled from the spec: \<open>to_square\<close> is not in the source file. The specification
  describes it as the inverse of the parsing, for display: the file letter is
  \<open>'a'\<close> plus the file, the rank digit is the rank plus one.
\<close>

definition to_square :: "position \<Rightarrow> string" where
  "to_square p = [char_of (of_char (CHR ''a'') + x p), char_of (of_char (CHR ''1'') + y p)]"

section \<open>Concrete sessions and environments\<close>

text \<open>
  A session as \<open>login\<close> leaves it, with tokens that have since expired, and the session
  of a user who is not logged in, as \<open>main\<close> initialises it.
\<close>

definition stale_session :: state where
  "stale_session =
     \<lparr>session_state =
        [''username'' \<mapsto> PStr ''alice'', ''stored_username'' \<mapsto> PStr ''alice'',
         ''api_client'' \<mapsto> ApiClient (PStr ''old-access''),
         ''auth_token'' \<mapsto> PStr ''old-access'', ''refresh_token'' \<mapsto> PStr ''old-refresh'',
         ''show_create_form'' \<mapsto> PBool False, ''active_game_id'' \<mapsto> PStr ''game-1''],
      api_client = PNone, access_token = PNone, events = []\<rparr>"

definition fresh_session :: state where
  "fresh_session =
     \<lparr>session_state =
        [''username'' \<mapsto> PNone, ''stored_username'' \<mapsto> PNone, ''api_client'' \<mapsto> PNone,
         ''auth_token'' \<mapsto> PNone, ''refresh_token'' \<mapsto> PNone,
         ''show_create_form'' \<mapsto> PBool False, ''active_game_id'' \<mapsto> PNone],
      api_client = PNone, access_token = PNone, events = []\<rparr>"

definition unauthorized :: exn where
  "unauthorized = Exn Exception ''(401) Reason: Unauthorized''"

definition connection_refused :: exn where
  "connection_refused = Exn Exception ''Connection refused''"

definition validation_error :: exn where
  "validation_error = Exn ValueError ''1 validation error for ChessList''"

definition new_tokens :: "(string \<times> pyval) list" where
  "new_tokens =
     [(''access_token'', PStr ''new-access''), (''expires_in'', PInt 300),
      (''refresh_token'', PStr ''new-refresh'')]"

definition sample_game :: chess where
  "sample_game = Chess ''game-1'' ''playing''
     \<lparr>white = username_to_party ''alice'', black = username_to_party ''bob''\<rparr>"

text \<open>
  An engine that accepts the token \<open>new-access\<close> only and answers every other client
  with 401; \<open>ok\<close> is the answer to an accepted call.
\<close>

definition guarded :: "(exn + 'r) \<Rightarrow> pyval \<Rightarrow> exn + 'r" where
  "guarded ok client = (if client = ApiClient (PStr ''new-access'') then ok else Inl unauthorized)"

text \<open>
  \<open>expiry_env\<close>: the identity provider renews the tokens. \<open>dead_env\<close>: it cannot be
  reached. \<open>validation_env\<close>: renewal works, and the list of games then fails to
  decode with a \<open>ValueError\<close>. \<open>offline_env\<close>: the engine cannot be reached.
  \<open>both_env\<close>: the engine rejects a move with a text that holds both phrases.
\<close>

definition expiry_env :: env where
  "expiry_env =
     \<lparr>requests_post = (\<lambda>tr url data. Inr new_tokens),
      dict_repr = (\<lambda>d. ''{}''),
      create_chess = (\<lambda>tr c ps. guarded (Inr (Chess ''game-2'' ''playing'' ps)) c),
      get_chess_list = (\<lambda>tr c. guarded (Inr [sample_game]) c),
      chess_get_board = (\<lambda>tr c g. guarded (Inr []) c),
      chess_get_current_turn = (\<lambda>tr c g. guarded (Inr ''WHITE'') c),
      chess_make_white_move = (\<lambda>tr c g m. guarded (Inr ()) c),
      chess_make_black_move = (\<lambda>tr c g m. guarded (Inr ()) c),
      get_chess_by_id = (\<lambda>tr c g. guarded (Inr sample_game) c)\<rparr>"

definition dead_env :: env where
  "dead_env = expiry_env\<lparr>requests_post := (\<lambda>tr url data. Inl connection_refused)\<rparr>"

definition validation_env :: env where
  "validation_env = expiry_env\<lparr>get_chess_list := (\<lambda>tr c. guarded (Inl validation_error) c)\<rparr>"

definition offline_env :: env where
  "offline_env =
     expiry_env\<lparr>get_chess_list := (\<lambda>tr c. Inl connection_refused),
                chess_make_white_move := (\<lambda>tr c g m. Inl connection_refused)\<rparr>"

definition accepting_env :: env where
  "accepting_env =
     expiry_env\<lparr>chess_make_white_move := (\<lambda>tr c g m. Inr ()),
                chess_make_black_move := (\<lambda>tr c g m. Inr ())\<rparr>"

definition both_env :: env where
  "both_env =
     expiry_env\<lparr>chess_make_white_move :=
                  (\<lambda>tr c g m. Inl (Exn Exception ''Not your turn: Invalid move''))\<rparr>"

text \<open>
  The states of a listing of the games that starts in \<open>stale_session\<close>: after the
  first call, after a renewal that answers \<open>new_tokens\<close>, after the second call; and
  after a renewal that could not reach the identity provider.
\<close>

definition old_client :: pyval where
  "old_client = ApiClient (PStr ''old-access'')"

definition new_client :: pyval where
  "new_client = ApiClient (PStr ''new-access'')"

definition after_first_call :: state where
  "after_first_call = emit (ApiCall old_client GetChessList) stale_session"

definition after_renewal :: state where
  "after_renewal =
     after_first_call
       \<lparr>session_state :=
          (session_state after_first_call)
            (''api_client'' \<mapsto> new_client, ''auth_token'' \<mapsto> PStr ''new-access'',
             ''refresh_token'' \<mapsto> PStr ''new-refresh''),
        api_client := new_client,
        access_token := PStr ''new-access'',
        events := events after_first_call @
                  [RequestsPost token_url (refresh_data (PStr ''old-refresh''))]\<rparr>"

definition after_retry :: state where
  "after_retry = emit (ApiCall new_client GetChessList) after_renewal"

definition after_failed_renewal :: state where
  "after_failed_renewal =
     emit (RequestsPost token_url (refresh_data (PStr ''old-refresh''))) after_first_call"

definition e2_e4 :: move where
  "e2_e4 = \<lparr>var_from = \<lparr>x = 4, y = 1\<rparr>, to = \<lparr>x = 4, y = 3\<rparr>\<rparr>"

section \<open>Facts about the model\<close>

lemmas scenario_defs =
  stale_session_def fresh_session_def unauthorized_def connection_refused_def validation_error_def
  new_tokens_def sample_game_def guarded_def expiry_env_def dead_env_def validation_env_def
  offline_env_def accepting_env_def both_env_def old_client_def new_client_def
  after_first_call_def after_renewal_def after_retry_def after_failed_renewal_def e2_e4_def

lemmas model_defs =
  session_get_def emit_def api_call_def token_url_def refresh_data_def refresh_token_def
  session_expired_def ensure_valid_token_def token_signal_def relogin_def
  with_token_refresh_counted_def with_token_refresh_def value_error_result_def
  is_Exception_def is_ValueError_def lower_def lower_char_def upper_def upper_char_def
  please_login_first_def Let_def

text \<open>
  What a successful \<open>ensure_valid_token\<close> did: it posted the stored refresh token,
  received both token fields, and stored them with a new client.
\<close>

lemma ensure_valid_token_Inr:
  assumes "ensure_valid_token ev s = (Inr u, s')"
  shows "\<exists>td at rt.
           truthy (session_get s ''refresh_token'') \<and>
           requests_post ev (events s) token_url (refresh_data (session_get s ''refresh_token'')) = Inr td \<and>
           map_of td ''access_token'' = Some at \<and> map_of td ''refresh_token'' = Some rt \<and>
           s' = s\<lparr>session_state := (session_state s)(''api_client'' \<mapsto> ApiClient at,
                                      ''auth_token'' \<mapsto> at, ''refresh_token'' \<mapsto> rt),
                  api_client := ApiClient at, access_token := at,
                  events := events s @
                    [RequestsPost token_url (refresh_data (session_get s ''refresh_token''))]\<rparr>"
  using assms
  by (auto simp: ensure_valid_token_def refresh_token_def emit_def Let_def
           split: if_splits sum.splits option.splits prod.splits)

lemma login_again_messages:
  "str_in ''Please login again'' ''No refresh token available. Please login again.''"
  "str_in ''Please login again'' (str session_expired)"
  by (simp_all add: session_expired_def)

text \<open>A failed \<open>ensure_valid_token\<close> raises one of its two \<open>ValueError\<close>s.\<close>

lemma ensure_valid_token_Inl:
  assumes "ensure_valid_token ev s = (Inl ve, s')" and "is_Exception ve"
  shows "is_ValueError ve \<and> str_in ''Please login again'' (str ve)"
  using assms login_again_messages
  by (auto simp: ensure_valid_token_def refresh_token_def emit_def Let_def is_ValueError_def
                 session_expired_def
           split: if_splits sum.splits option.splits prod.splits)

lemma ensure_valid_token_events:
  "\<exists>more. events (snd (ensure_valid_token ev s)) = events s @ more"
  by (auto simp: ensure_valid_token_def refresh_token_def emit_def Let_def
           split: if_splits sum.splits option.splits prod.splits)

lemma stale_first_call:
  "get_chess_games_body expiry_env stale_session = (Inl unauthorized, after_first_call)"
  "get_chess_games_body dead_env stale_session = (Inl unauthorized, after_first_call)"
  "get_chess_games_body validation_env stale_session = (Inl unauthorized, after_first_call)"
  "get_chess_games_body offline_env stale_session = (Inl connection_refused, after_first_call)"
  by (simp_all add: get_chess_games_body_def scenario_defs model_defs)

lemma stale_renewal:
  "ensure_valid_token expiry_env after_first_call = (Inr (), after_renewal)"
  "ensure_valid_token validation_env after_first_call = (Inr (), after_renewal)"
  "ensure_valid_token dead_env after_first_call = (Inl session_expired, after_failed_renewal)"
  by (simp_all add: scenario_defs model_defs)

lemma stale_second_call:
  "get_chess_games_body expiry_env after_renewal = (Inr [sample_game], after_retry)"
  "get_chess_games_body validation_env after_renewal = (Inl validation_error, after_retry)"
  by (simp_all add: get_chess_games_body_def scenario_defs model_defs)

lemma signals:
  "token_signal unauthorized" "\<not> token_signal connection_refused"
  "is_Exception unauthorized" "is_Exception connection_refused" "is_Exception session_expired"
  by (simp_all add: scenario_defs model_defs)

section \<open>The retry policy of the decorator\<close>

text \<open>
  Claim C8. When the first call of the wrapped method raises an error whose
  description holds neither \<open>token\<close> nor \<open>unauthorized\<close> in any letter case, the
  wrapper calls the method once, makes no request to refresh the token, and raises
  that same error from the state the method left.
\<close>

theorem no_signal_propagates_unchanged:
  assumes "func s = (Inl e, s1)" and "\<not> token_signal e"
  shows "with_token_refresh_counted func ev s = ((Inl e, s1), 1) \<and>
         with_token_refresh func ev s = (Inl e, s1) \<and>
         filter network (events (snd (with_token_refresh func ev s))) = filter network (events s1)"
  using assms by (simp add: with_token_refresh_counted_def with_token_refresh_def)

theorem no_signal_propagates_unchanged_witness:
  "get_chess_games_body offline_env stale_session = (Inl connection_refused, after_first_call) \<and>
   \<not> token_signal connection_refused \<and>
   with_token_refresh_counted (get_chess_games_body offline_env) offline_env stale_session =
     ((Inl connection_refused, after_first_call), 1) \<and>
   get_chess_games offline_env stale_session = (Inl connection_refused, after_first_call) \<and>
   filter network (events after_first_call) = [ApiCall old_client GetChessList]"
proof -
  have first: "get_chess_games_body offline_env stale_session = (Inl connection_refused, after_first_call)"
    by (rule stale_first_call)
  have quiet: "\<not> token_signal connection_refused"
    by (rule signals)
  have trace: "filter network (events after_first_call) = [ApiCall old_client GetChessList]"
    by (simp add: scenario_defs emit_def)
  from no_signal_propagates_unchanged
      [where func = "get_chess_games_body offline_env" and s = stale_session and ev = offline_env,
       OF first quiet]
    first quiet trace
  show ?thesis by (simp add: get_chess_games_def)
qed

text \<open>
  Claim C1, as the code has it. When the first call raises an \<open>Exception\<close> whose
  description holds the token signal and \<open>ensure_valid_token\<close> succeeds, the method is
  called exactly twice, and the second call runs on the session that holds the access
  and refresh token just issued and a client made for them. When the second call
  returns, or raises anything but a \<open>ValueError\<close>, its outcome is the outcome of the
  wrapper, in the state that call left, with no further call: the session then holds
  the new pair whenever the method does not write the session itself. A \<open>ValueError\<close>
  of the second call is not returned: the wrapper shows its text, empties the session
  and leaves through \<open>st.rerun()\<close>.
\<close>

theorem retry_once_after_renewal:
  assumes "func s = (Inl e, s1)" and "is_Exception e" and "token_signal e"
      and "ensure_valid_token ev s1 = (Inr u, s2)"
      and "func s2 = (r, s3)"
  shows "snd (with_token_refresh_counted func ev s) = 2 \<and>
         (\<exists>td at rt.
            requests_post ev (events s1) token_url (refresh_data (session_get s1 ''refresh_token'')) = Inr td \<and>
            map_of td ''access_token'' = Some at \<and> map_of td ''refresh_token'' = Some rt \<and>
            session_state s2 ''auth_token'' = Some at \<and>
            session_state s2 ''refresh_token'' = Some rt \<and>
            session_state s2 ''api_client'' = Some (ApiClient at) \<and>
            (\<not> value_error_result r \<and> session_state s3 = session_state s2 \<longrightarrow>
               session_state (snd (with_token_refresh func ev s)) ''auth_token'' = Some at \<and>
               session_state (snd (with_token_refresh func ev s)) ''refresh_token'' = Some rt \<and>
               session_state (snd (with_token_refresh func ev s)) ''api_client'' = Some (ApiClient at))) \<and>
         (\<not> value_error_result r \<longrightarrow>
            with_token_refresh_counted func ev s = ((r, s3), 2) \<and>
            with_token_refresh func ev s = (r, s3)) \<and>
         (value_error_result r \<longrightarrow>
            (\<exists>e2. r = Inl e2 \<and>
               with_token_refresh_counted func ev s =
                 ((Inl (Exn RerunException []),
                   s3\<lparr>events := events s3 @ [StError (str e2)], session_state := Map.empty\<rparr>), 2)))"
proof -
  have returned: "\<not> value_error_result r \<Longrightarrow> with_token_refresh_counted func ev s = ((r, s3), 2)"
    using assms
    by (cases r) (simp_all add: with_token_refresh_counted_def value_error_result_def)
  have cleared: "value_error_result r \<Longrightarrow>
      \<exists>e2. r = Inl e2 \<and>
        with_token_refresh_counted func ev s =
          ((Inl (Exn RerunException []),
            s3\<lparr>events := events s3 @ [StError (str e2)], session_state := Map.empty\<rparr>), 2)"
    using assms
    by (cases r)
       (simp_all add: with_token_refresh_counted_def value_error_result_def relogin_def emit_def)
  have twice: "snd (with_token_refresh_counted func ev s) = 2"
    using returned cleared by (cases "value_error_result r") auto
  from ensure_valid_token_Inr [OF assms(4)] obtain td at rt where pair:
    "requests_post ev (events s1) token_url (refresh_data (session_get s1 ''refresh_token'')) = Inr td"
    "map_of td ''access_token'' = Some at" "map_of td ''refresh_token'' = Some rt"
    "session_state s2 ''auth_token'' = Some at"
    "session_state s2 ''refresh_token'' = Some rt"
    "session_state s2 ''api_client'' = Some (ApiClient at)"
    by auto
  have kept: "\<not> value_error_result r \<and> session_state s3 = session_state s2 \<longrightarrow>
      session_state (snd (with_token_refresh func ev s)) ''auth_token'' = Some at \<and>
      session_state (snd (with_token_refresh func ev s)) ''refresh_token'' = Some rt \<and>
      session_state (snd (with_token_refresh func ev s)) ''api_client'' = Some (ApiClient at)"
    using returned pair(4-6) by (simp add: with_token_refresh_def)
  from twice pair kept returned cleared show ?thesis
    by (simp add: with_token_refresh_def)
qed

theorem retry_once_after_renewal_witness:
  "get_chess_games_body expiry_env stale_session = (Inl unauthorized, after_first_call) \<and>
   is_Exception unauthorized \<and> token_signal unauthorized \<and>
   ensure_valid_token expiry_env after_first_call = (Inr (), after_renewal) \<and>
   get_chess_games_body expiry_env after_renewal = (Inr [sample_game], after_retry) \<and>
   \<not> value_error_result (Inr [sample_game] :: exn + chess list) \<and>
   session_state after_retry = session_state after_renewal \<and>
   with_token_refresh_counted (get_chess_games_body expiry_env) expiry_env stale_session =
     ((Inr [sample_game], after_retry), 2) \<and>
   session_state after_retry ''auth_token'' = Some (PStr ''new-access'') \<and>
   session_state after_retry ''refresh_token'' = Some (PStr ''new-refresh'') \<and>
   session_state after_retry ''api_client'' = Some (ApiClient (PStr ''new-access''))"
proof -
  have ok: "\<not> value_error_result (Inr [sample_game] :: exn + chess list)"
    by (simp add: value_error_result_def)
  have frame: "session_state after_retry = session_state after_renewal"
    by (simp add: after_retry_def emit_def)
  have held:
    "session_state after_retry ''auth_token'' = Some (PStr ''new-access'')"
    "session_state after_retry ''refresh_token'' = Some (PStr ''new-refresh'')"
    "session_state after_retry ''api_client'' = Some (ApiClient (PStr ''new-access''))"
    by (simp_all add: scenario_defs emit_def)
  from retry_once_after_renewal
      [where func = "get_chess_games_body expiry_env" and s = stale_session,
       OF stale_first_call(1) signals(3) signals(1) stale_renewal(1) stale_second_call(1)]
  have "with_token_refresh_counted (get_chess_games_body expiry_env) expiry_env stale_session =
     ((Inr [sample_game], after_retry), 2)"
    using ok by blast
  then show ?thesis
    using stale_first_call(1) signals(1,3) stale_renewal(1) stale_second_call(1) ok frame held
    by simp
qed

text \<open>
  The claim as written fails where the second call raises a \<open>ValueError\<close>: the first
  listing of the games is answered with 401, the renewal succeeds, and the second
  answer does not decode. The wrapper then shows the message, clears the session and
  reruns; the caller does not see the outcome of the second call, and the new tokens
  are gone.
\<close>

theorem retry_value_error_counterexample:
  "get_chess_games_body validation_env stale_session = (Inl unauthorized, after_first_call) \<and>
   is_Exception unauthorized \<and> token_signal unauthorized \<and>
   ensure_valid_token validation_env after_first_call = (Inr (), after_renewal) \<and>
   session_state after_renewal ''refresh_token'' = Some (PStr ''new-refresh'') \<and>
   get_chess_games_body validation_env after_renewal = (Inl validation_error, after_retry) \<and>
   fst (get_chess_games validation_env stale_session) = Inl (Exn RerunException []) \<and>
   fst (get_chess_games validation_env stale_session) \<noteq> Inl validation_error \<and>
   session_state (snd (get_chess_games validation_env stale_session)) ''auth_token'' = None \<and>
   session_state (snd (get_chess_games validation_env stale_session)) ''refresh_token'' = None \<and>
   events (snd (get_chess_games validation_env stale_session)) =
     events after_retry @ [StError (str validation_error)]"
proof -
  have run: "get_chess_games validation_env stale_session = relogin validation_error after_retry"
    using stale_first_call(3) stale_renewal(2) stale_second_call(2) signals(1,3)
    by (simp add: get_chess_games_def with_token_refresh_def with_token_refresh_counted_def
                  is_ValueError_def validation_error_def)
  have held: "session_state after_renewal ''refresh_token'' = Some (PStr ''new-refresh'')"
    by (simp add: scenario_defs emit_def)
  show ?thesis
    using stale_first_call(3) stale_renewal(2) stale_second_call(2) signals(1,3) held
    by (simp add: run relogin_def emit_def validation_error_def)
qed

text \<open>
  Claim C2. When the first call raises an \<open>Exception\<close> with the token signal and
  \<open>ensure_valid_token\<close> fails, the method has been called once and is not called
  again; the wrapper shows the failure, whose text asks to log in again, empties
  \<open>st.session_state\<close> entirely and leaves through \<open>st.rerun()\<close>.
\<close>

theorem failed_renewal_clears_session:
  assumes "func s = (Inl e, s1)" and "is_Exception e" and "token_signal e"
      and "ensure_valid_token ev s1 = (Inl ve, s2)" and "is_Exception ve"
  shows "with_token_refresh_counted func ev s =
           ((Inl (Exn RerunException []),
             s2\<lparr>events := events s2 @ [StError (str ve)], session_state := Map.empty\<rparr>), 1) \<and>
         session_state (snd (with_token_refresh func ev s)) = Map.empty \<and>
         str_in ''Please login again'' (str ve)"
  using assms ensure_valid_token_Inl [OF assms(4,5)]
  by (simp add: with_token_refresh_def with_token_refresh_counted_def relogin_def emit_def)

theorem failed_renewal_clears_session_witness:
  "get_chess_games_body dead_env stale_session = (Inl unauthorized, after_first_call) \<and>
   is_Exception unauthorized \<and> token_signal unauthorized \<and>
   ensure_valid_token dead_env after_first_call = (Inl session_expired, after_failed_renewal) \<and>
   is_Exception session_expired \<and>
   with_token_refresh_counted (get_chess_games_body dead_env) dead_env stale_session =
     ((Inl (Exn RerunException []),
       after_failed_renewal\<lparr>events := events after_failed_renewal @
           [StError ''Session expired. Please login again.''],
         session_state := Map.empty\<rparr>), 1) \<and>
   session_get (snd (get_chess_games dead_env stale_session)) ''refresh_token'' = PNone \<and>
   session_get (snd (get_chess_games dead_env stale_session)) ''username'' = PNone \<and>
   session_get (snd (get_chess_games dead_env stale_session)) ''api_client'' = PNone"
proof -
  from failed_renewal_clears_session
      [where func = "get_chess_games_body dead_env" and s = stale_session,
       OF stale_first_call(2) signals(3) signals(1) stale_renewal(3) signals(5)]
  show ?thesis
    using stale_first_call(2) signals(1,3,5) stale_renewal(3)
    by (simp add: get_chess_games_def session_get_def session_expired_def)
qed

section \<open>\<open>make_move\<close>: translation, classification and the decorator\<close>

lemma lower_char_files: "\<forall>f \<in> set ''abcdefgh''. lower_char f = f"
  by (simp add: lower_char_def)

lemma lower_char_file: "f \<in> set ''abcdefgh'' \<Longrightarrow> lower_char f = f"
  using lower_char_files by blast

lemma digit_value_ranks:
  "\<forall>r \<in> set ''12345678''. digit_value r = Some (of_char r - of_char (CHR ''0''))"
  by (simp add: digit_value_def)

lemma digit_value_rank:
  "r \<in> set ''12345678'' \<Longrightarrow> digit_value r = Some (of_char r - of_char (CHR ''0''))"
  using digit_value_ranks by blast

lemma well_formed_squareE:
  assumes "well_formed_square sq"
  shows "\<exists>f r. sq = [f, r] \<and> f \<in> set ''abcdefgh'' \<and> r \<in> set ''12345678''"
proof -
  from assms have len: "length sq = 2"
    and f: "sq ! 0 \<in> set ''abcdefgh''" and r: "sq ! 1 \<in> set ''12345678''"
    by (simp_all add: well_formed_square_def)
  from len obtain a b where "sq = [a, b]"
    by (cases sq; cases "tl sq") (simp_all add: Suc_length_conv)
  with f r show ?thesis by simp
qed

lemma notation_to_coord_well_formed:
  assumes "well_formed_square sq"
  shows "notation_to_coord sq =
           Inr \<lparr>x = of_char (sq ! 0) - of_char (CHR ''a''), y = of_char (sq ! 1) - of_char (CHR ''1'')\<rparr>"
proof -
  from well_formed_squareE [OF assms] obtain f r where sq: "sq = [f, r]"
    and f: "f \<in> set ''abcdefgh''" and r: "r \<in> set ''12345678''"
    by blast
  show ?thesis
    using lower_char_file [OF f] digit_value_rank [OF r]
    by (simp add: sq notation_to_coord_def)
qed

text \<open>
  The handler of \<open>make_move\<close> turns every \<open>Exception\<close> into the same
  \<open>ValueError\<close>, whose description carries no token signal: the decorator around
  \<open>make_move\<close> never refreshes and never calls the body again.
\<close>

lemma move_failed_no_signal: "\<not> token_signal move_failed"
  by (simp add: move_failed_def token_signal_def lower_def lower_char_def)

lemma make_move_body_raises:
  assumes "make_move_body ev game_id from_pos to_pos current_turn s = (Inl e, s')"
      and "is_Exception e"
  shows "e = move_failed"
  using assms by (auto simp: make_move_body_def split: prod.splits sum.splits if_splits)

lemma make_move_never_retries:
  "make_move_counted ev game_id from_pos to_pos current_turn s =
     (make_move_body ev game_id from_pos to_pos current_turn s, 1)"
proof (cases "make_move_body ev game_id from_pos to_pos current_turn s")
  case (Pair r s')
  show ?thesis
  proof (cases r)
    case (Inl e)
    with Pair make_move_body_raises [of ev game_id from_pos to_pos current_turn s e s']
      move_failed_no_signal
    show ?thesis
      by (cases "is_Exception e") (auto simp: make_move_counted_def with_token_refresh_counted_def)
  next
    case (Inr u)
    with Pair show ?thesis
      by (simp add: make_move_counted_def with_token_refresh_counted_def)
  qed
qed

lemma make_move_is_body:
  "make_move ev game_id from_pos to_pos current_turn s =
     make_move_body ev game_id from_pos to_pos current_turn s"
  using make_move_never_retries [of ev game_id from_pos to_pos current_turn s]
  by (simp add: make_move_def make_move_counted_def with_token_refresh_def)

text \<open>What \<open>make_move\<close> does once both squares have been converted.\<close>

lemma make_move_body_sends:
  assumes "truthy (session_get s ''api_client'')"
      and "notation_to_coord from_pos = Inr pf" and "notation_to_coord to_pos = Inr pt"
  shows "make_move_body ev game_id from_pos to_pos current_turn s =
           (let client = session_get s ''api_client'';
                mv = \<lparr>var_from = pf, to = pt\<rparr>;
                s1 = emit (ApiCall client
                       ((if current_turn = PieceColor_WHITE then ChessMakeWhiteMove
                         else ChessMakeBlackMove) game_id mv)) s
            in case (if current_turn = PieceColor_WHITE then chess_make_white_move ev
                     else chess_make_black_move ev) (events s) client game_id mv of
                 Inr u \<Rightarrow> (Inr (), s1)
               | Inl e \<Rightarrow>
                   if is_Exception e
                   then (Inl move_failed, emit (StError (move_error_message (str e))) s1)
                   else (Inl e, s1))"
  using assms
  by (simp add: make_move_body_def make_move_try_def api_call_def Let_def split: sum.splits)

lemma e2_e4_coords:
  "notation_to_coord ''e2'' = Inr \<lparr>x = 4, y = 1\<rparr>"
  "notation_to_coord ''e4'' = Inr \<lparr>x = 4, y = 3\<rparr>"
  by (simp_all add: notation_to_coord_def lower_char_def digit_value_def)

lemma stale_has_client:
  "truthy (session_get stale_session ''api_client'')"
  "session_get stale_session ''api_client'' = old_client"
  by (simp_all add: stale_session_def session_get_def old_client_def)

lemma stale_events: "events stale_session = []"
  by (simp add: stale_session_def)

text \<open>
  Claim C4. In a session that holds a client, \<open>make_move\<close> on two well-formed squares
  calls the white-move method when \<open>current_turn\<close> is \<open>WHITE\<close> and the black-move
  method otherwise, with the move whose files are the letters minus \<open>a\<close> and whose
  ranks are the digits minus one; it is the only network call. For \<open>e2\<close>, \<open>e4\<close> the
  move is from (4, 1) to (4, 3).
\<close>

theorem move_translation:
  assumes "truthy (session_get s ''api_client'')"
      and "well_formed_square from_pos" and "well_formed_square to_pos"
  shows "\<exists>rest.
           events (snd (make_move ev game_id from_pos to_pos current_turn s)) =
             events s @
             ApiCall (session_get s ''api_client'')
               ((if current_turn = ''WHITE'' then ChessMakeWhiteMove else ChessMakeBlackMove) game_id
                  \<lparr>var_from = \<lparr>x = of_char (from_pos ! 0) - of_char (CHR ''a''),
                                y = of_char (from_pos ! 1) - of_char (CHR ''1'')\<rparr>,
                   to = \<lparr>x = of_char (to_pos ! 0) - of_char (CHR ''a''),
                          y = of_char (to_pos ! 1) - of_char (CHR ''1'')\<rparr>\<rparr>) # rest \<and>
           filter network rest = []"
  using make_move_body_sends [OF assms(1) notation_to_coord_well_formed [OF assms(2)]
          notation_to_coord_well_formed [OF assms(3)], of ev game_id current_turn]
  by (auto simp: make_move_is_body emit_def Let_def PieceColor_WHITE_def split: sum.splits)

theorem move_translation_witness:
  "truthy (session_get stale_session ''api_client'') \<and>
   well_formed_square ''e2'' \<and> well_formed_square ''e4'' \<and>
   make_move accepting_env ''game-1'' ''e2'' ''e4'' ''WHITE'' stale_session =
     (Inr (), emit (ApiCall old_client (ChessMakeWhiteMove ''game-1'' e2_e4)) stale_session) \<and>
   make_move accepting_env ''game-1'' ''e2'' ''e4'' ''BLACK'' stale_session =
     (Inr (), emit (ApiCall old_client (ChessMakeBlackMove ''game-1'' e2_e4)) stale_session) \<and>
   (\<exists>rest. events (snd (make_move accepting_env ''game-1'' ''e2'' ''e4'' ''WHITE'' stale_session)) =
      events stale_session @
      ApiCall old_client
        (ChessMakeWhiteMove ''game-1'' \<lparr>var_from = \<lparr>x = 4, y = 1\<rparr>, to = \<lparr>x = 4, y = 3\<rparr>\<rparr>) # rest \<and>
      filter network rest = [])"
proof -
  have client: "truthy (session_get stale_session ''api_client'')"
    by (simp add: stale_session_def session_get_def)
  have e2: "well_formed_square ''e2''" and e4: "well_formed_square ''e4''"
    by (simp_all add: well_formed_square_def)
  have coords: "notation_to_coord ''e2'' = Inr \<lparr>x = 4, y = 1\<rparr>"
               "notation_to_coord ''e4'' = Inr \<lparr>x = 4, y = 3\<rparr>"
    by (simp_all add: notation_to_coord_def lower_char_def digit_value_def)
  have white: "make_move accepting_env ''game-1'' ''e2'' ''e4'' ''WHITE'' stale_session =
     (Inr (), emit (ApiCall old_client (ChessMakeWhiteMove ''game-1'' e2_e4)) stale_session)"
    using make_move_body_sends [OF client coords, of accepting_env "''game-1''" "''WHITE''"]
    by (simp add: make_move_is_body PieceColor_WHITE_def scenario_defs session_get_def emit_def Let_def)
  have black: "make_move accepting_env ''game-1'' ''e2'' ''e4'' ''BLACK'' stale_session =
     (Inr (), emit (ApiCall old_client (ChessMakeBlackMove ''game-1'' e2_e4)) stale_session)"
    using make_move_body_sends [OF client coords, of accepting_env "''game-1''" "''BLACK''"]
    by (simp add: make_move_is_body PieceColor_WHITE_def scenario_defs session_get_def emit_def Let_def)
  have old: "session_get stale_session ''api_client'' = old_client"
    by (simp add: stale_session_def session_get_def old_client_def)
  from move_translation [OF client e2 e4, of accepting_env "''game-1''" "''WHITE''"]
  show ?thesis
    using client e2 e4 white black by (simp add: old)
qed

text \<open>
  Claim C6, as the code has it. When the engine call of \<open>make_move\<close> raises an
  \<open>Exception\<close>, \<open>make_move\<close> shows exactly one of three fixed messages: the one for an
  invalid move when the text holds \<open>Invalid move\<close>; otherwise the one for a wrong turn
  when the text holds \<open>Not your turn\<close>; otherwise the general one. The error raised to
  the caller is \<open>ValueError("Move failed")\<close> in all three cases: it carries neither the
  category nor the text of the engine's error. The body is called once.
\<close>

theorem move_error_classification:
  assumes "truthy (session_get s ''api_client'')"
      and "notation_to_coord from_pos = Inr pf" and "notation_to_coord to_pos = Inr pt"
      and "(if current_turn = PieceColor_WHITE then chess_make_white_move ev
            else chess_make_black_move ev)
             (events s) (session_get s ''api_client'') game_id \<lparr>var_from = pf, to = pt\<rparr> = Inl e"
      and "is_Exception e"
  shows "make_move_counted ev game_id from_pos to_pos current_turn s =
           ((Inl (Exn ValueError ''Move failed''),
             s\<lparr>events := events s @
                 [ApiCall (session_get s ''api_client'')
                    ((if current_turn = PieceColor_WHITE then ChessMakeWhiteMove
                      else ChessMakeBlackMove) game_id \<lparr>var_from = pf, to = pt\<rparr>),
                  StError
                    (if str_in ''Invalid move'' (str e)
                     then ''Invalid move! Please check the rules of chess.''
                     else if str_in ''Not your turn'' (str e) then ''Not your turn!''
                     else ''Move failed. Please try again.'')]\<rparr>), 1)"
  using make_move_body_sends [OF assms(1-3), of ev game_id current_turn] assms(4,5)
  by (simp add: make_move_never_retries Let_def emit_def move_failed_def move_error_message_def)

theorem move_error_classification_witness:
  "truthy (session_get stale_session ''api_client'') \<and>
   notation_to_coord ''e2'' = Inr \<lparr>x = 4, y = 1\<rparr> \<and>
   notation_to_coord ''e4'' = Inr \<lparr>x = 4, y = 3\<rparr> \<and>
   chess_make_white_move offline_env (events stale_session) old_client ''game-1'' e2_e4 =
     Inl connection_refused \<and>
   is_Exception connection_refused \<and>
   make_move_counted offline_env ''game-1'' ''e2'' ''e4'' ''WHITE'' stale_session =
     ((Inl (Exn ValueError ''Move failed''),
       stale_session\<lparr>events := [ApiCall old_client (ChessMakeWhiteMove ''game-1'' e2_e4),
                                StError ''Move failed. Please try again.'']\<rparr>), 1)"
proof -
  have reply: "(if ''WHITE'' = PieceColor_WHITE then chess_make_white_move offline_env
                else chess_make_black_move offline_env)
                 (events stale_session) (session_get stale_session ''api_client'') ''game-1''
                 \<lparr>var_from = \<lparr>x = 4, y = 1\<rparr>, to = \<lparr>x = 4, y = 3\<rparr>\<rparr> = Inl connection_refused"
    by (simp add: PieceColor_WHITE_def offline_env_def expiry_env_def)
  have reply': "chess_make_white_move offline_env (events stale_session) old_client ''game-1'' e2_e4 =
     Inl connection_refused"
    by (simp add: offline_env_def expiry_env_def)
  from move_error_classification [OF stale_has_client(1) e2_e4_coords reply signals(4)]
  show ?thesis
    using stale_has_client(1) e2_e4_coords reply' signals(4)
    by (simp add: stale_has_client(2) stale_events PieceColor_WHITE_def e2_e4_def
                  connection_refused_def)
qed

text \<open>
  The claim as written fails twice. A text that holds both phrases is shown as an
  invalid move, not as a wrong turn; and an error of the wrong-turn kind and one of
  the unknown kind raise the very same \<open>ValueError\<close>, so the error the caller
  receives does not carry the category.
\<close>

theorem move_error_counterexample:
  "chess_make_white_move both_env (events stale_session) old_client ''game-1'' e2_e4 =
     Inl (Exn Exception ''Not your turn: Invalid move'') \<and>
   str_in ''Not your turn'' ''Not your turn: Invalid move'' \<and>
   make_move both_env ''game-1'' ''e2'' ''e4'' ''WHITE'' stale_session =
     (Inl (Exn ValueError ''Move failed''),
      stale_session\<lparr>events := [ApiCall old_client (ChessMakeWhiteMove ''game-1'' e2_e4),
                               StError ''Invalid move! Please check the rules of chess.'']\<rparr>) \<and>
   fst (make_move offline_env ''game-1'' ''e2'' ''e4'' ''WHITE'' stale_session) =
     fst (make_move both_env ''game-1'' ''e2'' ''e4'' ''WHITE'' stale_session)"
proof -
  have both: "make_move both_env ''game-1'' ''e2'' ''e4'' ''WHITE'' stale_session =
     (Inl (Exn ValueError ''Move failed''),
      stale_session\<lparr>events := [ApiCall old_client (ChessMakeWhiteMove ''game-1'' e2_e4),
                               StError ''Invalid move! Please check the rules of chess.'']\<rparr>)"
    using make_move_body_sends [OF stale_has_client(1) e2_e4_coords, of both_env "''game-1''" "''WHITE''"]
    by (simp add: make_move_is_body PieceColor_WHITE_def scenario_defs session_get_def emit_def
                  Let_def is_Exception_def move_failed_def move_error_message_def)
  have offline: "fst (make_move offline_env ''game-1'' ''e2'' ''e4'' ''WHITE'' stale_session) =
     Inl (Exn ValueError ''Move failed'')"
    using make_move_body_sends [OF stale_has_client(1) e2_e4_coords, of offline_env "''game-1''" "''WHITE''"]
    by (simp add: make_move_is_body PieceColor_WHITE_def scenario_defs session_get_def emit_def
                  Let_def is_Exception_def move_failed_def move_error_message_def)
  show ?thesis
    by (simp add: both offline) (simp add: both_env_def expiry_env_def)
qed

text \<open>
  Claim C3 does not hold of the code. The decorator is applied to \<open>make_move\<close>, but
  the handler inside \<open>make_move\<close> has already replaced the engine's error: with a
  session whose access token has expired and an identity provider ready to renew it,
  the engine answers the move with 401 Unauthorized, and \<open>make_move\<close> raises
  \<open>ValueError("Move failed")\<close> after one call, with no request to the token endpoint.
  The listing of the games, in the same session, is refreshed and retried.
\<close>

theorem make_move_expired_token_not_retried:
  "chess_make_white_move expiry_env (events stale_session) old_client ''game-1'' e2_e4 =
     Inl unauthorized \<and>
   token_signal unauthorized \<and>
   make_move_counted expiry_env ''game-1'' ''e2'' ''e4'' ''WHITE'' stale_session =
     ((Inl move_failed,
       stale_session\<lparr>events := [ApiCall old_client (ChessMakeWhiteMove ''game-1'' e2_e4),
                                StError ''Move failed. Please try again.'']\<rparr>), 1) \<and>
   with_token_refresh_counted (get_chess_games_body expiry_env) expiry_env stale_session =
     ((Inr [sample_game], after_retry), 2)"
proof -
  have move: "make_move_counted expiry_env ''game-1'' ''e2'' ''e4'' ''WHITE'' stale_session =
     ((Inl move_failed,
       stale_session\<lparr>events := [ApiCall old_client (ChessMakeWhiteMove ''game-1'' e2_e4),
                                StError ''Move failed. Please try again.'']\<rparr>), 1)"
    using make_move_body_sends [OF stale_has_client(1) e2_e4_coords, of expiry_env "''game-1''" "''WHITE''"]
    by (simp add: make_move_never_retries PieceColor_WHITE_def scenario_defs session_get_def
                  emit_def Let_def is_Exception_def move_error_message_def)
  have list: "with_token_refresh_counted (get_chess_games_body expiry_env) expiry_env stale_session =
     ((Inr [sample_game], after_retry), 2)"
    using stale_first_call(1) stale_renewal(1) stale_second_call(1) signals(1,3)
    by (simp add: with_token_refresh_counted_def)
  show ?thesis
    using signals(1) by (simp add: move list) (simp add: scenario_defs)
qed

section \<open>Sessions without a client\<close>

lemma please_login_first_no_signal: "\<not> token_signal please_login_first"
  by (simp add: please_login_first_def token_signal_def lower_def lower_char_def)

text \<open>
  Five of the six wrapped methods, called without a client in the session, raise
  \<open>ValueError("Please login first")\<close> and leave the state as it was: no network call
  and no refresh.
\<close>

lemma not_logged_in:
  assumes "\<not> truthy (session_get s ''api_client'')"
  shows "create_chess_instance ev player opponent colour s = (Inl please_login_first, s)"
    and "get_chess_games ev s = (Inl please_login_first, s)"
    and "get_board ev game_id s = (Inl please_login_first, s)"
    and "get_current_turn ev game_id s = (Inl please_login_first, s)"
    and "get_game ev game_id s = (Inl please_login_first, s)"
  using assms please_login_first_no_signal
  by (simp_all add: create_chess_instance_def create_chess_instance_body_def
        get_chess_games_def get_chess_games_body_def get_board_def get_board_body_def
        get_current_turn_def get_current_turn_body_def get_game_def get_game_body_def
        with_token_refresh_def with_token_refresh_counted_def)

lemma make_move_not_logged_in:
  assumes "\<not> truthy (session_get s ''api_client'')"
  shows "make_move ev game_id from_pos to_pos current_turn s =
           (Inl move_failed, emit (StError ''Move failed. Please try again.'') s)"
  using assms
  by (simp add: make_move_is_body make_move_body_def make_move_try_def please_login_first_def
                is_Exception_def move_error_message_def)

text \<open>
  Claim C10 does not hold of the code for \<open>make_move\<close>. Its check for a client
  stands inside the \<open>try\<close> whose handler replaces every error: in the session of a
  user who is not logged in, \<open>make_move\<close> shows the general message and raises
  \<open>ValueError("Move failed")\<close>, not \<open>"Please login first"\<close> as the listing of the
  games does in the same session. No network call and no refresh is made.
\<close>

theorem make_move_hides_login_error:
  "\<not> truthy (session_get fresh_session ''api_client'') \<and>
   make_move expiry_env ''game-1'' ''e2'' ''e4'' ''WHITE'' fresh_session =
     (Inl (Exn ValueError ''Move failed''),
      emit (StError ''Move failed. Please try again.'') fresh_session) \<and>
   get_chess_games expiry_env fresh_session =
     (Inl (Exn ValueError ''Please login first''), fresh_session)"
proof -
  have out: "\<not> truthy (session_get fresh_session ''api_client'')"
    by (simp add: fresh_session_def session_get_def)
  show ?thesis
    using out make_move_not_logged_in [OF out] not_logged_in(2) [OF out]
    by (simp add: move_failed_def please_login_first_def)
qed

section \<open>\<open>create_chess_instance\<close>\<close>

text \<open>
  The wrapper only adds to the trace that the first call of the method left: what a
  further call of the method adds, a post to the token endpoint, or a message.
\<close>

lemma relogin_events: "events (snd (relogin ve s)) = events s @ [StError (str ve)]"
  by (simp add: relogin_def emit_def)

lemma ensure_valid_token_adds:
  assumes "\<And>url data. P (RequestsPost url data)"
  shows "\<exists>more. events (snd (ensure_valid_token ev s)) = events s @ more \<and> (\<forall>x \<in> set more. P x)"
  using assms
  by (auto simp: ensure_valid_token_def refresh_token_def emit_def Let_def
           split: if_splits sum.splits option.splits prod.splits)

lemma with_token_refresh_adds:
  assumes grows: "\<And>t. \<exists>more. events (snd (func t)) = events t @ more \<and> (\<forall>x \<in> set more. P x)"
      and post: "\<And>url data. P (RequestsPost url data)"
      and shown: "\<And>m. P (StError m)"
  shows "\<exists>rest. events (snd (with_token_refresh func ev s)) = events (snd (func s)) @ rest \<and>
                (\<forall>x \<in> set rest. P x)"
proof (cases "func s")
  case (Pair r s1)
  show ?thesis
  proof (cases r)
    case (Inr v)
    with Pair show ?thesis
      by (simp add: with_token_refresh_def with_token_refresh_counted_def)
  next
    case (Inl e)
    show ?thesis
    proof (cases "is_Exception e \<and> token_signal e")
      case False
      with Pair Inl show ?thesis
        by (auto simp: with_token_refresh_def with_token_refresh_counted_def)
    next
      case True
      obtain r2 s2 where renew: "ensure_valid_token ev s1 = (r2, s2)"
        by (cases "ensure_valid_token ev s1")
      from ensure_valid_token_adds [of P ev s1, OF post] renew
      obtain m where m: "events s2 = events s1 @ m" "\<forall>x \<in> set m. P x" by auto
      show ?thesis
      proof (cases r2)
        case (Inl ve)
        with Pair \<open>r = Inl e\<close> True renew m shown show ?thesis
          by (simp add: with_token_refresh_def with_token_refresh_counted_def relogin_events)
      next
        case (Inr u)
        obtain r3 s3 where again: "func s2 = (r3, s3)"
          by (cases "func s2")
        from grows [of s2] again obtain m2 where m2: "events s3 = events s2 @ m2" "\<forall>x \<in> set m2. P x"
          by auto
        from Pair \<open>r = Inl e\<close> True renew Inr again m m2 shown show ?thesis
          by (cases r3)
             (auto simp: with_token_refresh_def with_token_refresh_counted_def relogin_events)
      qed
    qed
  qed
qed

text \<open>A value that the wrapper returns was returned by a call of the method.\<close>

lemma with_token_refresh_Inr:
  assumes "with_token_refresh func ev s = (Inr v, s')"
  shows "\<exists>t. func t = (Inr v, s')"
proof (cases "func s")
  case (Pair r s1)
  show ?thesis
  proof (cases r)
    case (Inr w)
    with Pair assms show ?thesis
      by (auto simp: with_token_refresh_def with_token_refresh_counted_def)
  next
    case (Inl e)
    obtain r2 s2 where renew: "ensure_valid_token ev s1 = (r2, s2)"
      by (cases "ensure_valid_token ev s1")
    obtain r3 s3 where again: "func s2 = (r3, s3)"
      by (cases "func s2")
    from Pair Inl renew again assms show ?thesis
      by (cases r2; cases r3)
         (auto simp: with_token_refresh_def with_token_refresh_counted_def relogin_def
               split: if_splits)
  qed
qed

text \<open>
  Claim C5. In a session that holds a client, every creation request that
  \<open>create_chess_instance\<close> submits, the first and a retried one, carries the same
  parties: the white party has \<open>preferred_username = [player]\<close> when the colour, in
  upper case, is \<open>WHITE\<close>, and \<open>[opponent]\<close> otherwise; the black party has the other
  name; both have the configured issuer under \<open>iss\<close> and no access claims. When the
  engine answers the first request with a game, that game is returned after this one
  request. Every game that is returned is the engine's answer to such a request, so
  for an engine that answers with the parties it was sent, the game produced carries
  these parties.
\<close>

theorem create_game_parties:
  assumes "truthy (session_get s ''api_client'')"
      and "ps = \<lparr>white = \<lparr>entity = [(''preferred_username'',
                                       [if upper colour = ''WHITE'' then player else opponent]),
                                      (''iss'', [auth_url])],
                           access = []\<rparr>,
                 black = \<lparr>entity = [(''preferred_username'',
                                       [if upper colour = ''WHITE'' then opponent else player]),
                                      (''iss'', [auth_url])],
                           access = []\<rparr>\<rparr>"
  shows "(\<exists>rest.
            events (snd (create_chess_instance ev player opponent colour s)) =
              events s @ ApiCall (session_get s ''api_client'') (CreateChess ps) # rest \<and>
            (\<forall>x \<in> set rest. \<forall>c req. x = ApiCall c req \<longrightarrow> req = CreateChess ps)) \<and>
         (\<forall>g. create_chess ev (events s) (session_get s ''api_client'') ps = Inr g \<longrightarrow>
              create_chess_instance ev player opponent colour s =
                (Inr g, emit (ApiCall (session_get s ''api_client'') (CreateChess ps)) s)) \<and>
         (\<forall>g s'. create_chess_instance ev player opponent colour s = (Inr g, s') \<longrightarrow>
              (\<exists>t. create_chess ev (events t) (session_get t ''api_client'') ps = Inr g \<and>
                   s' = emit (ApiCall (session_get t ''api_client'') (CreateChess ps)) t)) \<and>
         (\<forall>g s'. create_chess_instance ev player opponent colour s = (Inr g, s') \<and>
                 (\<forall>tr c g'. create_chess ev tr c ps = Inr g' \<longrightarrow> parties g' = ps) \<longrightarrow>
                 parties g = ps)"
proof -
  let ?P = "\<lambda>x. \<forall>c req. x = ApiCall c req \<longrightarrow> req = CreateChess ps"
  let ?body = "create_chess_instance_body ev player opponent colour"
  have body: "\<And>t. ?body t =
      (if \<not> truthy (session_get t ''api_client'') then (Inl please_login_first, t)
       else (create_chess ev (events t) (session_get t ''api_client'') ps,
             emit (ApiCall (session_get t ''api_client'') (CreateChess ps)) t))"
    by (simp add: create_chess_instance_body_def api_call_def Let_def assms(2)
                  username_to_party_def create_party_def)
  have grows: "\<And>t. \<exists>more. events (snd (?body t)) = events t @ more \<and> (\<forall>x \<in> set more. ?P x)"
    by (simp add: body emit_def)
  from with_token_refresh_adds [of ?body ?P ev s, OF grows]
  obtain rest where rest:
    "events (snd (create_chess_instance ev player opponent colour s)) = events (snd (?body s)) @ rest"
    "\<forall>x \<in> set rest. ?P x"
    by (auto simp: create_chess_instance_def)
  have first: "\<exists>rest.
      events (snd (create_chess_instance ev player opponent colour s)) =
        events s @ ApiCall (session_get s ''api_client'') (CreateChess ps) # rest \<and>
      (\<forall>x \<in> set rest. ?P x)"
    using rest assms(1) by (simp add: body emit_def)
  have direct: "\<forall>g. create_chess ev (events s) (session_get s ''api_client'') ps = Inr g \<longrightarrow>
      create_chess_instance ev player opponent colour s =
        (Inr g, emit (ApiCall (session_get s ''api_client'') (CreateChess ps)) s)"
    using assms(1)
    by (simp add: create_chess_instance_def with_token_refresh_def with_token_refresh_counted_def body)
  have answer: "\<forall>g s'. create_chess_instance ev player opponent colour s = (Inr g, s') \<longrightarrow>
      (\<exists>t. create_chess ev (events t) (session_get t ''api_client'') ps = Inr g \<and>
           s' = emit (ApiCall (session_get t ''api_client'') (CreateChess ps)) t)"
  proof (intro allI impI)
    fix g s'
    assume "create_chess_instance ev player opponent colour s = (Inr g, s')"
    then have "with_token_refresh ?body ev s = (Inr g, s')"
      by (simp add: create_chess_instance_def)
    from with_token_refresh_Inr [OF this] obtain t where "?body t = (Inr g, s')" ..
    then have "create_chess ev (events t) (session_get t ''api_client'') ps = Inr g \<and>
               s' = emit (ApiCall (session_get t ''api_client'') (CreateChess ps)) t"
      by (simp add: body split: if_splits)
    then show "\<exists>t. create_chess ev (events t) (session_get t ''api_client'') ps = Inr g \<and>
                   s' = emit (ApiCall (session_get t ''api_client'') (CreateChess ps)) t" ..
  qed
  have echoed: "\<forall>g s'. create_chess_instance ev player opponent colour s = (Inr g, s') \<and>
      (\<forall>tr c g'. create_chess ev tr c ps = Inr g' \<longrightarrow> parties g' = ps) \<longrightarrow> parties g = ps"
    using answer by blast
  from first direct answer echoed show ?thesis by blast
qed

lemma alice_white_run:
  "create_chess_instance expiry_env ''alice'' ''bob'' ''white'' stale_session =
     (Inr (Chess ''game-2'' ''playing''
        \<lparr>white = \<lparr>entity = [(''preferred_username'', [''alice'']), (''iss'', [auth_url])],
                   access = []\<rparr>,
         black = \<lparr>entity = [(''preferred_username'', [''bob'']), (''iss'', [auth_url])],
                   access = []\<rparr>\<rparr>),
      snd (create_chess_instance expiry_env ''alice'' ''bob'' ''white'' stale_session))"
  by (simp add: create_chess_instance_def create_chess_instance_body_def
                username_to_party_def create_party_def scenario_defs model_defs)

lemma alice_black_run:
  "create_chess_instance expiry_env ''alice'' ''bob'' ''black'' stale_session =
     (Inr (Chess ''game-2'' ''playing''
        \<lparr>white = \<lparr>entity = [(''preferred_username'', [''bob'']), (''iss'', [auth_url])],
                   access = []\<rparr>,
         black = \<lparr>entity = [(''preferred_username'', [''alice'']), (''iss'', [auth_url])],
                   access = []\<rparr>\<rparr>),
      snd (create_chess_instance expiry_env ''alice'' ''bob'' ''black'' stale_session))"
  by (simp add: create_chess_instance_def create_chess_instance_body_def
                username_to_party_def create_party_def scenario_defs model_defs)

theorem create_game_parties_witness:
  "truthy (session_get stale_session ''api_client'') \<and>
   upper ''white'' = ''WHITE'' \<and> upper ''black'' \<noteq> ''WHITE'' \<and>
   map_of (entity (white (parties (projr (fst
     (create_chess_instance expiry_env ''alice'' ''bob'' ''white'' stale_session))))))
     ''preferred_username'' = Some [''alice''] \<and>
   map_of (entity (black (parties (projr (fst
     (create_chess_instance expiry_env ''alice'' ''bob'' ''white'' stale_session))))))
     ''preferred_username'' = Some [''bob''] \<and>
   map_of (entity (white (parties (projr (fst
     (create_chess_instance expiry_env ''alice'' ''bob'' ''black'' stale_session))))))
     ''preferred_username'' = Some [''bob''] \<and>
   map_of (entity (black (parties (projr (fst
     (create_chess_instance expiry_env ''alice'' ''bob'' ''black'' stale_session))))))
     ''preferred_username'' = Some [''alice''] \<and>
   map_of (entity (white (parties (projr (fst
     (create_chess_instance expiry_env ''alice'' ''bob'' ''white'' stale_session))))))
     ''iss'' = Some [auth_url] \<and>
   (\<exists>rest. events (snd (create_chess_instance expiry_env ''alice'' ''bob'' ''white'' stale_session)) =
      ApiCall old_client
        (CreateChess
           \<lparr>white = \<lparr>entity = [(''preferred_username'', [''alice'']), (''iss'', [auth_url])],
                      access = []\<rparr>,
            black = \<lparr>entity = [(''preferred_username'', [''bob'']), (''iss'', [auth_url])],
                      access = []\<rparr>\<rparr>) # rest)"
proof -
  have up: "upper ''white'' = ''WHITE''" "upper ''black'' \<noteq> ''WHITE''"
    by (simp_all add: upper_def upper_char_def)
  let ?ps = "\<lparr>white = \<lparr>entity = [(''preferred_username'', [''alice'']), (''iss'', [auth_url])],
                        access = []\<rparr>,
              black = \<lparr>entity = [(''preferred_username'', [''bob'']), (''iss'', [auth_url])],
                        access = []\<rparr>\<rparr>"
  have ps: "?ps = \<lparr>white = \<lparr>entity = [(''preferred_username'',
                                 [if upper ''white'' = ''WHITE'' then ''alice'' else ''bob'']),
                                (''iss'', [auth_url])], access = []\<rparr>,
                  black = \<lparr>entity = [(''preferred_username'',
                                 [if upper ''white'' = ''WHITE'' then ''bob'' else ''alice'']),
                                (''iss'', [auth_url])], access = []\<rparr>\<rparr>"
    using up by simp
  from create_game_parties [OF stale_has_client(1) ps, of expiry_env]
  have sent: "\<exists>rest. events (snd (create_chess_instance expiry_env ''alice'' ''bob'' ''white'' stale_session)) =
      ApiCall old_client (CreateChess ?ps) # rest"
    by (auto simp: stale_has_client(2) stale_events)
  have whites: "fst (create_chess_instance expiry_env ''alice'' ''bob'' ''white'' stale_session) =
      Inr (Chess ''game-2'' ''playing'' ?ps)"
    using alice_white_run by (metis fst_conv)
  have blacks: "fst (create_chess_instance expiry_env ''alice'' ''bob'' ''black'' stale_session) =
      Inr (Chess ''game-2'' ''playing''
        \<lparr>white = \<lparr>entity = [(''preferred_username'', [''bob'']), (''iss'', [auth_url])],
                   access = []\<rparr>,
         black = \<lparr>entity = [(''preferred_username'', [''alice'']), (''iss'', [auth_url])],
                   access = []\<rparr>\<rparr>)"
    using alice_black_run by (metis fst_conv)
  show ?thesis
    using stale_has_client(1) up sent by (simp add: whites blacks)
qed

section \<open>Malformed squares\<close>

lemma str_in_single: "str_in [c] s \<longleftrightarrow> c \<in> set s"
  by (induction s) auto

lemma in_both_True:
  assumes "in_both f t i alphabet = Inr True"
  shows "i < length f \<and> i < length t \<and> f ! i \<in> set alphabet \<and> t ! i \<in> set alphabet"
  using assms
  by (auto simp: in_both_def char_at_def str_in_single split: sum.splits if_splits)

text \<open>The validation shows messages only, and accepts well-formed squares only.\<close>

lemma validate_squares_frame:
  "filter network (events (snd (validate_squares f t w s))) = filter network (events s) \<and>
   session_state (snd (validate_squares f t w s)) = session_state s"
  by (simp add: validate_squares_def emit_def Let_def split: sum.splits)

lemma validate_squares_True:
  assumes "validate_squares f t w s = (Inr True, s1)" and "f \<noteq> []" and "t \<noteq> []"
  shows "well_formed_square f \<and> well_formed_square t"
proof -
  from assms have len: "length f = 2 \<and> length t = 2"
    and files: "in_both f t 0 ''abcdefgh'' = Inr True"
    and ranks: "in_both f t 1 ''12345678'' = Inr True"
    by (auto simp: validate_squares_def Let_def split: sum.splits)
  from in_both_True [OF files] in_both_True [OF ranks] len show ?thesis
    by (simp add: well_formed_square_def)
qed

text \<open>
  Claim C7, as the code has it. \<open>make_move\<close> does not validate its squares and knows
  no \<open>FormatError\<close>. The check is made by the move form of \<open>main\<close>, before
  \<open>make_move\<close> is called: whenever the from-square or the to-square typed into the
  form is malformed, the form does not call \<open>make_move\<close>; it makes no network call
  and leaves the session as it was.
\<close>

theorem malformed_square_never_submitted:
  assumes "\<not> (well_formed_square from_sq \<and> well_formed_square to_sq)"
  shows "filter network
           (events (snd (move_form ev game_id from_sq to_sq is_white submit current_turn s))) =
         filter network (events s) \<and>
         session_state (snd (move_form ev game_id from_sq to_sq is_white submit current_turn s)) =
         session_state s \<and>
         snd (move_form ev game_id from_sq to_sq is_white submit current_turn s) =
         snd (validate_squares from_sq to_sq is_white s)"
proof (cases "validate_squares from_sq to_sq is_white s")
  case (Pair r s1)
  have same: "snd (move_form ev game_id from_sq to_sq is_white submit current_turn s) = s1"
  proof (cases r)
    case (Inl e)
    with Pair show ?thesis by (simp add: move_form_def)
  next
    case (Inr valid_input)
    have "\<not> (submit \<and> valid_input \<and> from_sq \<noteq> [] \<and> to_sq \<noteq> [])"
    proof
      assume go: "submit \<and> valid_input \<and> from_sq \<noteq> [] \<and> to_sq \<noteq> []"
      with Pair Inr have "validate_squares from_sq to_sq is_white s = (Inr True, s1)"
        by simp
      from validate_squares_True [OF this] go assms show False by simp
    qed
    with Pair Inr show ?thesis by (auto simp: move_form_def)
  qed
  from validate_squares_frame [of from_sq to_sq is_white s] Pair same
  show ?thesis by simp
qed

theorem malformed_square_never_submitted_witness:
  "\<not> well_formed_square ''z9'' \<and>
   move_form expiry_env ''game-1'' ''z9'' ''e4'' True True ''WHITE'' stale_session =
     (Inr (), snd (validate_squares ''z9'' ''e4'' True stale_session)) \<and>
   filter network
     (events (snd (move_form expiry_env ''game-1'' ''z9'' ''e4'' True True ''WHITE'' stale_session))) = []"
proof -
  have bad: "\<not> well_formed_square ''z9''"
    by (simp add: well_formed_square_def)
  then have hyp: "\<not> (well_formed_square ''z9'' \<and> well_formed_square ''e4'')"
    by simp
  have run: "move_form expiry_env ''game-1'' ''z9'' ''e4'' True True ''WHITE'' stale_session =
     (Inr (), snd (validate_squares ''z9'' ''e4'' True stale_session))"
    by (simp add: move_form_def validate_squares_def in_both_def char_at_def Let_def)
  from malformed_square_never_submitted
         [OF hyp, of expiry_env "''game-1''" True True "''WHITE''" stale_session]
  show ?thesis
    using bad run by (simp add: stale_events)
qed

text \<open>
  The claim as written fails for \<open>make_move\<close> itself: the square \<open>e2x\<close> has three
  characters and \<open>E2\<close> an upper-case file, yet both are converted without an error,
  and the move reaches the engine.
\<close>

theorem malformed_square_counterexample:
  "\<not> well_formed_square ''e2x'' \<and> \<not> well_formed_square ''E2'' \<and>
   notation_to_coord ''e2x'' = Inr \<lparr>x = 4, y = 1\<rparr> \<and>
   notation_to_coord ''E2'' = Inr \<lparr>x = 4, y = 1\<rparr> \<and>
   make_move accepting_env ''game-1'' ''e2x'' ''e4'' ''WHITE'' stale_session =
     (Inr (), emit (ApiCall old_client (ChessMakeWhiteMove ''game-1'' e2_e4)) stale_session) \<and>
   filter network
     (events (snd (make_move accepting_env ''game-1'' ''e2x'' ''e4'' ''WHITE'' stale_session))) =
     [ApiCall old_client (ChessMakeWhiteMove ''game-1'' e2_e4)]"
proof -
  have coords: "notation_to_coord ''e2x'' = Inr \<lparr>x = 4, y = 1\<rparr>"
               "notation_to_coord ''E2'' = Inr \<lparr>x = 4, y = 1\<rparr>"
    by (simp_all add: notation_to_coord_def lower_char_def digit_value_def)
  have run: "make_move accepting_env ''game-1'' ''e2x'' ''e4'' ''WHITE'' stale_session =
     (Inr (), emit (ApiCall old_client (ChessMakeWhiteMove ''game-1'' e2_e4)) stale_session)"
    using make_move_body_sends [OF stale_has_client(1) coords(1) e2_e4_coords(2),
            of accepting_env "''game-1''" "''WHITE''"]
    by (simp add: make_move_is_body PieceColor_WHITE_def stale_has_client(2) stale_events
                  accepting_env_def expiry_env_def e2_e4_def Let_def)
  show ?thesis
    by (simp add: coords run) (simp add: well_formed_square_def emit_def stale_events)
qed

section \<open>The round trip of the coordinates\<close>

lemma file_letters:
  "\<forall>a \<in> set [0, 1, 2, 3, 4, 5, 6, 7 :: int].
     char_of (of_char (CHR ''a'') + a) \<in> set ''abcdefgh'' \<and>
     of_char (char_of (of_char (CHR ''a'') + a)) - of_char (CHR ''a'') = a"
  by (simp add: char_of_eq_iff)

lemma rank_digits:
  "\<forall>b \<in> set [0, 1, 2, 3, 4, 5, 6, 7 :: int].
     char_of (of_char (CHR ''1'') + b) \<in> set ''12345678'' \<and>
     of_char (char_of (of_char (CHR ''1'') + b)) - of_char (CHR ''1'') = b"
  by (simp add: char_of_eq_iff)

lemma in_range: "0 \<le> a \<Longrightarrow> a \<le> 7 \<Longrightarrow> a \<in> set [0, 1, 2, 3, 4, 5, 6, 7 :: int]"
  by (simp, arith)

lemma file_values:
  "\<forall>f \<in> set ''abcdefgh''. (0::int) \<le> of_char f - of_char (CHR ''a'') \<and>
                              (of_char f :: int) - of_char (CHR ''a'') \<le> 7"
  by simp

lemma rank_values:
  "\<forall>r \<in> set ''12345678''. (0::int) \<le> of_char r - of_char (CHR ''1'') \<and>
                              (of_char r :: int) - of_char (CHR ''1'') \<le> 7"
  by simp

text \<open>
  Claim C9. The conversion of \<open>make_move\<close> and \<open>to_square\<close> are inverse to each other:
  converting \<open>to_square p\<close> gives \<open>p\<close> for every position with file and rank in 0 to
  7, and every well-formed square converts without an error to such a position, which
  \<open>to_square\<close> maps back to the square.
\<close>

theorem square_round_trip:
  "(valid_position p \<longrightarrow> notation_to_coord (to_square p) = Inr p) \<and>
   (well_formed_square sq \<longrightarrow>
      (\<exists>q. notation_to_coord sq = Inr q \<and> valid_position q \<and> to_square q = sq))"
proof (intro conjI impI)
  assume valid: "valid_position p"
  then have a: "x p \<in> set [0, 1, 2, 3, 4, 5, 6, 7 :: int]"
    and b: "y p \<in> set [0, 1, 2, 3, 4, 5, 6, 7 :: int]"
    by (simp_all only: valid_position_def in_range)
  from file_letters a have fa: "char_of (of_char (CHR ''a'') + x p) \<in> set ''abcdefgh''"
    "of_char (char_of (of_char (CHR ''a'') + x p)) - of_char (CHR ''a'') = x p"
    by blast+
  from rank_digits b have rb: "char_of (of_char (CHR ''1'') + y p) \<in> set ''12345678''"
    "of_char (char_of (of_char (CHR ''1'') + y p)) - of_char (CHR ''1'') = y p"
    by blast+
  have wf: "well_formed_square (to_square p)"
    using fa(1) rb(1) by (simp add: well_formed_square_def to_square_def)
  from notation_to_coord_well_formed [OF wf] fa(2) rb(2)
  show "notation_to_coord (to_square p) = Inr p"
    by (simp add: to_square_def)
next
  assume wf: "well_formed_square sq"
  from well_formed_squareE [OF wf] obtain f r where sq: "sq = [f, r]"
    and f: "f \<in> set ''abcdefgh''" and r: "r \<in> set ''12345678''"
    by blast
  let ?q = "\<lparr>x = of_char (sq ! 0) - of_char (CHR ''a''), y = of_char (sq ! 1) - of_char (CHR ''1'')\<rparr>"
  have conv: "notation_to_coord sq = Inr ?q"
    by (rule notation_to_coord_well_formed [OF wf])
  from file_values f rank_values r have valid: "valid_position ?q"
    unfolding valid_position_def sq by fastforce
  have again: "to_square ?q = sq"
    by (simp add: to_square_def sq)
  from conv valid again
  show "\<exists>q. notation_to_coord sq = Inr q \<and> valid_position q \<and> to_square q = sq"
    by blast
qed

theorem square_round_trip_witness:
  "valid_position \<lparr>x = 4, y = 1\<rparr> \<and> to_square \<lparr>x = 4, y = 1\<rparr> = ''e2'' \<and>
   notation_to_coord (to_square \<lparr>x = 4, y = 1\<rparr>) = Inr \<lparr>x = 4, y = 1\<rparr> \<and>
   well_formed_square ''h8'' \<and>
   (\<exists>q. notation_to_coord ''h8'' = Inr q \<and> valid_position q \<and> to_square q = ''h8'')"
proof -
  have v: "valid_position \<lparr>x = 4, y = 1\<rparr>"
    by (simp add: valid_position_def)
  have w: "well_formed_square ''h8''"
    by (simp add: well_formed_square_def)
  have t: "to_square \<lparr>x = 4, y = 1\<rparr> = ''e2''"
    by (simp add: to_square_def char_of_eq_iff)
  from square_round_trip [of "\<lparr>x = 4, y = 1\<rparr>" "''h8''"] v w t
  show ?thesis by simp
qed

end
